theory Spec2Isabelle
  imports Complex_Main "HOL-Library.Multiset"
begin

section \<open>Data model\<close>

text \<open>
  The view functions of \<^verbatim>\<open>routes.py\<close> work on two tables through the ORM session
  \<^verbatim>\<open>db.session\<close>: the users (class \<^verbatim>\<open>User\<close>) and the transaction records (class
  \<^verbatim>\<open>Transaction\<close>). Only the columns the modelled routes read or write are kept.
  A monetary amount is modelled by the rational number it denotes; comparisons such as
  \<^verbatim>\<open>current_user.balance < amount\<close> compare the denoted values.
\<close>

record user =
  uid :: nat
  username :: string
  account_number :: string
  balance :: rat
  status :: string
  is_admin :: bool
  is_manager :: bool

text \<open>
  The fields of a record are those of the constructor call at lines 688-695:
  \<^verbatim>\<open>Transaction(sender_id=, receiver_id=, amount=, transaction_type=, details=, timestamp=)\<close>.
  A column that may hold \<^verbatim>\<open>None\<close> is an option.
\<close>

record txn =
  sender_id :: "nat option"
  receiver_id :: "nat option"
  amount :: "rat option"
  transaction_type :: string
  details :: "string option"
  timestamp :: int

record db =
  users :: "user list"
  transactions :: "txn list"

text \<open>
  \<^verbatim>\<open>db.session\<close>: the state as last committed (the persistent state) and the state
  as the running request sees it, with its pending changes. \<^verbatim>\<open>commit\<close> makes the
  pending changes persistent, \<^verbatim>\<open>rollback\<close> discards them. A request starts from a
  session without pending changes.
\<close>

record db_session =
  committed :: db
  working :: db

datatype exn = AttributeError | OperationalError

text \<open>
  What a request depends on besides the stored state: the clock read by
  \<^verbatim>\<open>datetime.datetime.utcnow()\<close>, the conversion \<^verbatim>\<open>float(...)\<close> of line 317 (a
  parameter: every theorem below holds for whatever value the conversion returns),
  and whether the store refuses the insertion of a record or the commit.
\<close>

record env =
  now :: int
  py_float :: "rat \<Rightarrow> rat"
  append_fails :: bool
  commit_fails :: bool

definition begin_session :: "db \<Rightarrow> db_session" where
  "begin_session d = \<lparr>committed = d, working = d\<rparr>"

definition commit :: "env \<Rightarrow> db_session \<Rightarrow> exn + db_session" where
  "commit e s =
     (if commit_fails e then Inl OperationalError
      else Inr (s\<lparr>committed := working s\<rparr>))"

definition rollback :: "db_session \<Rightarrow> db_session" where
  "rollback s = s\<lparr>working := committed s\<rparr>"

subsection \<open>Queries and attribute assignment\<close>

definition filter_by_username :: "string \<Rightarrow> db \<Rightarrow> user option" where
  "filter_by_username n d = find (\<lambda>u. username u = n) (users d)"

definition filter_by_account_number :: "string \<Rightarrow> db \<Rightarrow> user option" where
  "filter_by_account_number n d = find (\<lambda>u. account_number u = n) (users d)"

definition query_get :: "nat \<Rightarrow> db \<Rightarrow> user option" where
  "query_get i d = find (\<lambda>u. uid u = i) (users d)"

text \<open>
  \<^verbatim>\<open>current_user\<close>: the logged-in user, looked up in the session by the id the
  login cookie carries; \<open>None\<close> is the anonymous user.
\<close>

definition load_user :: "nat option \<Rightarrow> db \<Rightarrow> user option" where
  "load_user cu d = (case cu of None \<Rightarrow> None | Some i \<Rightarrow> query_get i d)"

text \<open>Assigning to attributes of a loaded object changes the row with its id.\<close>

definition set_user :: "user \<Rightarrow> db \<Rightarrow> db" where
  "set_user u d = d\<lparr>users := map (\<lambda>v. if uid v = uid u then u else v) (users d)\<rparr>"

definition session_add :: "txn \<Rightarrow> db \<Rightarrow> db" where
  "session_add t d = d\<lparr>transactions := transactions d @ [t]\<rparr>"

definition balance_of :: "nat \<Rightarrow> db \<Rightarrow> rat option" where
  "balance_of i d = map_option balance (query_get i d)"

subsection \<open>Forms and responses\<close>

text \<open>
  \<^verbatim>\<open>TransferForm\<close> and \<^verbatim>\<open>ConfirmTransferForm\<close> carry the same four fields;
  \<^verbatim>\<open>forms.py\<close> is not among the sources, so the outcome of
  \<^verbatim>\<open>form.validate_on_submit()\<close> is a field of the submitted form.
\<close>

record transfer_form =
  transfer_type :: string
  recipient_username :: string
  recipient_account :: string
  amount_data :: rat
  validate_on_submit :: bool

record deposit_form =
  dep_account_number :: string
  dep_amount :: rat
  dep_validate_on_submit :: bool

text \<open>
  The messages passed to \<^verbatim>\<open>flash\<close>, one constructor per message text:
  \<^item> \<open>Awaiting_approval\<close>: 'Your account is awaiting approval from an administrator.'
  \<^item> \<open>Cannot_transfer_to_self\<close>: 'You cannot transfer money to yourself.'
  \<^item> \<open>Insufficient_funds\<close>: 'Insufficient funds for this transfer.'
  \<^item> \<open>Recipient_not_active\<close>: 'The recipient account is not active.'
  \<^item> \<open>Recipient_not_found\<close>: 'Recipient not found.'
  \<^item> \<open>Transfer_failed\<close>: 'Transfer failed. Please check your balance.'
  \<^item> \<open>Transferred a n\<close>: 'Successfully transferred (amount a) to (username n)'
  \<^item> \<open>Need_admin\<close>: 'You need to be an admin to access this page.'
  \<^item> \<open>Need_manager\<close>: 'You need to be a manager to access this page.'
  \<^item> \<open>User_not_found\<close>: 'User not found'
  \<^item> \<open>Cannot_deposit_inactive\<close>: 'Cannot deposit to inactive account.'
  \<^item> \<open>Deposited a n\<close>: 'Successfully deposited (amount a) to (username n)'
  \<^item> \<open>Deposit_failed\<close>: 'Deposit failed.'
  \<^item> \<open>Cannot_modify_manager\<close>: 'You cannot modify another manager account.'
  \<^item> \<open>Promoted n\<close>: 'User (n) has been promoted to admin.'
  \<^item> \<open>Demoted n\<close>: 'User (n) has been demoted from admin.'
\<close>

datatype flash =
    Awaiting_approval
  | Cannot_transfer_to_self
  | Insufficient_funds
  | Recipient_not_active
  | Recipient_not_found
  | Transfer_failed
  | Transferred rat string
  | Need_admin
  | Need_manager
  | User_not_found
  | Cannot_deposit_inactive
  | Deposited rat string
  | Deposit_failed
  | Cannot_modify_manager
  | Promoted string
  | Demoted string

text \<open>
  A response: a redirect to an endpoint after an optional flash, a rendered template,
  the confirmation page for a recipient and an amount, the transaction page of a
  user, the login manager's answer to an anonymous request, a 404 and a 500.
\<close>

datatype response =
    Redirect string "flash option"
  | Render string
  | Render_confirm user rat
  | Render_transactions user "txn list"
  | Unauthorized
  | Not_found
  | Server_error

type_synonym view = "db_session \<Rightarrow> (exn + response) \<times> db_session"

subsection \<open>The methods of models.py\<close>

text \<open>
  \<^verbatim>\<open>User.transfer_money(recipient, amount)\<close> and \<^verbatim>\<open>User.deposit(amount, admin)\<close>
  are defined in \<^verbatim>\<open>models.py\<close>, which is not among the sources. The routes use them
  through one interface only: the call returns a value that is tested for truth, or
  raises, and may change objects of the session; committing is left to the route
  (lines 336 and 481). The routes are therefore modelled over any pair of methods of
  that interface: a method takes the working state and returns its result and the
  working state it leaves.
\<close>

record models =
  User_transfer_money :: "env \<Rightarrow> user \<Rightarrow> user \<Rightarrow> rat \<Rightarrow> db \<Rightarrow> (exn + bool) \<times> db"
  User_deposit :: "env \<Rightarrow> user \<Rightarrow> rat \<Rightarrow> user \<Rightarrow> db \<Rightarrow> (exn + bool) \<times> db"

section \<open>The routes\<close>

subsection \<open>Decorators and error handlers\<close>

text \<open>
  \<^verbatim>\<open>@login_required\<close> answers an anonymous request itself; \<^verbatim>\<open>admin_required\<close>
  (lines 39-46) and \<^verbatim>\<open>manager_required\<close> (lines 49-56) flash and redirect to the
  index. The rate limiter answers before the view runs and touches no state; it is
  not modelled.
\<close>

definition login_required :: "nat option \<Rightarrow> (user \<Rightarrow> view) \<Rightarrow> view" where
  "login_required cu f s =
     (case load_user cu (working s) of
        None \<Rightarrow> (Inr Unauthorized, s)
      | Some me \<Rightarrow> f me s)"

definition admin_required :: "(user \<Rightarrow> view) \<Rightarrow> user \<Rightarrow> view" where
  "admin_required f me s =
     (if \<not> is_admin me then (Inr (Redirect ''index'' (Some Need_admin)), s)
      else f me s)"

definition manager_required :: "(user \<Rightarrow> view) \<Rightarrow> user \<Rightarrow> view" where
  "manager_required f me s =
     (if \<not> is_manager me then (Inr (Redirect ''index'' (Some Need_manager)), s)
      else f me s)"

text \<open>Lines 1163-1166: the handler of an internal error rolls the session back.\<close>

definition internal_error :: "db_session \<Rightarrow> response \<times> db_session" where
  "internal_error s = (Server_error, rollback s)"

text \<open>
  One request: the view runs on a fresh session; an exception that leaves the view is
  handed to \<open>internal_error\<close>.
\<close>

definition dispatch :: "view \<Rightarrow> db \<Rightarrow> response \<times> db_session" where
  "dispatch v d =
     (case v (begin_session d) of
        (Inr r, s) \<Rightarrow> (r, s)
      | (Inl x, s) \<Rightarrow> internal_error s)"

text \<open>The recipient lookup shared by lines 267-271 and 320-324.\<close>

definition find_recipient :: "transfer_form \<Rightarrow> db \<Rightarrow> user option" where
  "find_recipient form d =
     (if transfer_type form = ''username''
      then filter_by_username (recipient_username form) d
      else filter_by_account_number (recipient_account form) d)"

subsection \<open>transfer (lines 255-303)\<close>

definition transfer_view :: "transfer_form \<Rightarrow> user \<Rightarrow> view" where
  "transfer_view form me s =
     (if status me \<noteq> ''active'' \<and> \<not> is_admin me \<and> \<not> is_manager me then
        (Inr (Redirect ''index'' (Some Awaiting_approval)), s)
      else if validate_on_submit form then
        (let recipient = find_recipient form (working s);
             amount = amount_data form
         in if (case recipient of None \<Rightarrow> False | Some r \<Rightarrow> uid r = uid me) then
              (Inr (Redirect ''transfer'' (Some Cannot_transfer_to_self)), s)
            else if balance me < amount then
              (Inr (Redirect ''transfer'' (Some Insufficient_funds)), s)
            else
              (case recipient of
                 None \<Rightarrow> (Inl AttributeError, s)
               | Some r \<Rightarrow>
                   if status r \<noteq> ''active'' \<and> \<not> is_admin r \<and> \<not> is_manager r then
                     (Inr (Redirect ''transfer'' (Some Recipient_not_active)), s)
                   else (Inr (Render_confirm r amount), s)))
      else (Inr (Render ''transfer.html''), s))"

definition transfer :: "nat option \<Rightarrow> transfer_form \<Rightarrow> view" where
  "transfer cu form = login_required cu (transfer_view form)"

subsection \<open>execute_transfer (lines 306-343)\<close>

definition execute_transfer_view :: "models \<Rightarrow> env \<Rightarrow> transfer_form \<Rightarrow> user \<Rightarrow> view" where
  "execute_transfer_view M e form me s =
     (if status me \<noteq> ''active'' \<and> \<not> is_admin me \<and> \<not> is_manager me then
        (Inr (Redirect ''index'' (Some Awaiting_approval)), s)
      else if validate_on_submit form then
        (let amount = py_float e (amount_data form)
         in case find_recipient form (working s) of
              None \<Rightarrow> (Inr (Redirect ''transfer'' (Some Recipient_not_found)), s)
            | Some recipient \<Rightarrow>
                if status recipient \<noteq> ''active'' \<and> \<not> is_admin recipient
                   \<and> \<not> is_manager recipient then
                  (Inr (Redirect ''transfer'' (Some Recipient_not_active)), s)
                else
                  (case User_transfer_money M e me recipient amount (working s) of
                     (Inl x, w) \<Rightarrow> (Inl x, s\<lparr>working := w\<rparr>)
                   | (Inr True, w) \<Rightarrow>
                       (case commit e (s\<lparr>working := w\<rparr>) of
                          Inl x \<Rightarrow> (Inl x, s\<lparr>working := w\<rparr>)
                        | Inr s' \<Rightarrow>
                            (Inr (Redirect ''account''
                               (Some (Transferred amount (username recipient)))), s'))
                   | (Inr False, w) \<Rightarrow>
                       (Inr (Redirect ''transfer'' (Some Transfer_failed)),
                        s\<lparr>working := w\<rparr>)))
      else (Inr (Redirect ''transfer'' None), s))"

definition execute_transfer :: "models \<Rightarrow> env \<Rightarrow> nat option \<Rightarrow> transfer_form \<Rightarrow> view" where
  "execute_transfer M e cu form = login_required cu (execute_transfer_view M e form)"

subsection \<open>admin_deposit (lines 453-488)\<close>

definition admin_deposit_view :: "models \<Rightarrow> env \<Rightarrow> deposit_form \<Rightarrow> user \<Rightarrow> view" where
  "admin_deposit_view M e form me s =
     (if dep_validate_on_submit form then
        (case filter_by_account_number (dep_account_number form) (working s) of
           None \<Rightarrow> (Inr (Redirect ''admin_deposit'' (Some User_not_found)), s)
         | Some u \<Rightarrow>
             if status u \<noteq> ''active'' \<and> \<not> is_admin u \<and> \<not> is_manager u then
               (Inr (Redirect ''admin_deposit'' (Some Cannot_deposit_inactive)), s)
             else
               (let amount = dep_amount form
                in case User_deposit M e u amount me (working s) of
                     (Inl x, w) \<Rightarrow> (Inl x, s\<lparr>working := w\<rparr>)
                   | (Inr True, w) \<Rightarrow>
                       (case commit e (s\<lparr>working := w\<rparr>) of
                          Inl x \<Rightarrow> (Inl x, s\<lparr>working := w\<rparr>)
                        | Inr s' \<Rightarrow>
                            (Inr (Redirect ''admin_dashboard''
                               (Some (Deposited amount (username u)))), s'))
                   | (Inr False, w) \<Rightarrow>
                       (Inr (Redirect ''admin_deposit'' (Some Deposit_failed)),
                        s\<lparr>working := w\<rparr>)))
      else (Inr (Render ''admin/deposit.html''), s))"

definition admin_deposit :: "models \<Rightarrow> env \<Rightarrow> nat option \<Rightarrow> deposit_form \<Rightarrow> view" where
  "admin_deposit M e cu form =
     login_required cu (admin_required (admin_deposit_view M e form))"

subsection \<open>admin_user_transactions (lines 704-712)\<close>

text \<open>
  The query of lines 709-711. A comparison of a \<^verbatim>\<open>NULL\<close> column with an id is not
  true in SQL, so a record matches when one of its two references is the id.
  \<^verbatim>\<open>order_by(Transaction.timestamp.desc())\<close> sorts by falling timestamp.
\<close>

definition involves :: "nat \<Rightarrow> txn \<Rightarrow> bool" where
  "involves i t \<longleftrightarrow> sender_id t = Some i \<or> receiver_id t = Some i"

definition order_by_timestamp_desc :: "txn list \<Rightarrow> txn list" where
  "order_by_timestamp_desc ts = sort_key (\<lambda>t. - timestamp t) ts"

definition user_transactions :: "nat \<Rightarrow> db \<Rightarrow> txn list" where
  "user_transactions i d = order_by_timestamp_desc (filter (involves i) (transactions d))"

definition admin_user_transactions_view :: "nat \<Rightarrow> user \<Rightarrow> view" where
  "admin_user_transactions_view user_id me s =
     (case query_get user_id (working s) of
        None \<Rightarrow> (Inr Not_found, s)
      | Some u \<Rightarrow> (Inr (Render_transactions u (user_transactions (uid u) (working s))), s))"

definition admin_user_transactions :: "nat option \<Rightarrow> nat \<Rightarrow> view" where
  "admin_user_transactions cu user_id =
     login_required cu (admin_required (admin_user_transactions_view user_id))"

subsection \<open>toggle_admin (lines 854-880)\<close>

definition toggle_admin_view :: "env \<Rightarrow> nat \<Rightarrow> user \<Rightarrow> view" where
  "toggle_admin_view e user_id me s =
     (case query_get user_id (working s) of
        None \<Rightarrow> (Inr Not_found, s)
      | Some u \<Rightarrow>
          if is_manager u then
            (Inr (Redirect ''manager_dashboard'' (Some Cannot_modify_manager)), s)
          else
            (let u1 = u\<lparr>is_admin := \<not> is_admin u\<rparr>
             in if is_admin u1 then
                  (let u2 = u1\<lparr>status := ''active''\<rparr>;
                       s1 = s\<lparr>working := set_user u2 (working s)\<rparr>
                   in case commit e s1 of
                        Inl x \<Rightarrow> (Inl x, s1)
                      | Inr s' \<Rightarrow> (Inr (Redirect ''user_list'' (Some (Promoted (username u)))), s'))
                else
                  (let s1 = s\<lparr>working := set_user u1 (working s)\<rparr>
                   in case commit e s1 of
                        Inl x \<Rightarrow> (Inl x, s1)
                      | Inr s' \<Rightarrow> (Inr (Redirect ''admin_list'' (Some (Demoted (username u)))), s'))))"

definition toggle_admin :: "env \<Rightarrow> nat option \<Rightarrow> nat \<Rightarrow> view" where
  "toggle_admin e cu user_id =
     login_required cu (manager_required (toggle_admin_view e user_id))"

section \<open>The ledger operations of the specification\<close>

datatype error =
    InsufficientFunds
  | SelfTransfer
  | InactiveAccount
  | AccountNotFound
  | InvalidAmount
  | OperationFailed

text \<open>
  The eligibility check in the words of the specification (section 6):
  status is active, or the role is admin or manager.
\<close>

definition is_eligible :: "user \<Rightarrow> bool" where
  "is_eligible u \<longleftrightarrow> status u = ''active'' \<or> is_admin u \<or> is_manager u"

text \<open>
  Modelled from the spec: the Transaction Recorder's \<^verbatim>\<open>record\<close> (section 4.2), whose
  code is in \<^verbatim>\<open>models.py\<close>. It appends one record, or fails as a whole on a storage
  fault.
\<close>

definition record_txn :: "env \<Rightarrow> txn \<Rightarrow> db \<Rightarrow> db option" where
  "record_txn e t d = (if append_fails e then None else Some (session_add t d))"

text \<open>
  Modelled from the spec: \<^verbatim>\<open>User.transfer_money\<close>, the ledger's \<^verbatim>\<open>transfer\<close> of
  section 4.1, whose code is in \<^verbatim>\<open>models.py\<close>. The preconditions are checked in the
  order the specification lists them; the balances change only if the sender's
  balance covers the amount; the record is appended in the same unit of work, and an
  error while appending gives the pre-call state back (section 7).
\<close>

definition transfer_money :: "env \<Rightarrow> user \<Rightarrow> user \<Rightarrow> rat \<Rightarrow> db \<Rightarrow> error + db" where
  "transfer_money e sender recipient a d =
     (if uid sender = uid recipient then Inl SelfTransfer
      else if a \<le> 0 then Inl InvalidAmount
      else if \<not> is_eligible sender \<or> \<not> is_eligible recipient then Inl InactiveAccount
      else if balance sender < a then Inl InsufficientFunds
      else
        (let d1 = set_user (sender\<lparr>balance := balance sender - a\<rparr>) d;
             d2 = set_user (recipient\<lparr>balance := balance recipient + a\<rparr>) d1
         in case record_txn e
                   \<lparr>sender_id = Some (uid sender), receiver_id = Some (uid recipient),
                    amount = Some a, transaction_type = ''transfer'', details = None,
                    timestamp = now e\<rparr> d2 of
              None \<Rightarrow> Inl OperationFailed
            | Some d3 \<Rightarrow> Inr d3))"

text \<open>
  Modelled from the spec: \<^verbatim>\<open>User.deposit\<close>, the ledger's \<^verbatim>\<open>deposit\<close> of section
  4.1, whose code is in \<^verbatim>\<open>models.py\<close>. The record has no sender; the acting
  administrator is kept for the audit in the free-text details.
\<close>

definition deposit :: "env \<Rightarrow> user \<Rightarrow> rat \<Rightarrow> user \<Rightarrow> db \<Rightarrow> error + db" where
  "deposit e target a actor d =
     (if a \<le> 0 then Inl InvalidAmount
      else if \<not> is_eligible target then Inl InactiveAccount
      else
        (let d1 = set_user (target\<lparr>balance := balance target + a\<rparr>) d
         in case record_txn e
                   \<lparr>sender_id = None, receiver_id = Some (uid target),
                    amount = Some a, transaction_type = ''deposit'',
                    details = Some (username actor), timestamp = now e\<rparr> d1 of
              None \<Rightarrow> Inl OperationFailed
            | Some d2 \<Rightarrow> Inr d2))"

text \<open>
  The routes test the returned value for truth: a result of the specification's
  operation is true when it succeeded, and a failure leaves the working state as it
  was.
\<close>

definition method_result :: "db \<Rightarrow> error + db \<Rightarrow> (exn + bool) \<times> db" where
  "method_result d r = (case r of Inl err \<Rightarrow> (Inr False, d) | Inr d' \<Rightarrow> (Inr True, d'))"

definition spec_models :: models where
  "spec_models =
     \<lparr>User_transfer_money = (\<lambda>e sender recipient a d.
         method_result d (transfer_money e sender recipient a d)),
      User_deposit = (\<lambda>e target a actor d.
         method_result d (deposit e target a actor d))\<rparr>"

section \<open>Outcomes of a request\<close>

text \<open>
  A transfer or a deposit succeeded when the route answers with its success message
  (lines 337 and 482); every other response is a failure of the operation.
\<close>

fun success_flash :: "flash \<Rightarrow> bool" where
  "success_flash (Transferred a n) = True"
| "success_flash (Deposited a n) = True"
| "success_flash _ = False"

fun succeeded :: "response \<Rightarrow> bool" where
  "succeeded (Redirect ep (Some f)) = success_flash f"
| "succeeded _ = False"

definition balances :: "db \<Rightarrow> (nat \<times> rat) list" where
  "balances d = map (\<lambda>u. (uid u, balance u)) (users d)"

definition record_added :: "db \<Rightarrow> db \<Rightarrow> bool" where
  "record_added d d' \<longleftrightarrow> transactions d' \<noteq> [] \<and> butlast (transactions d') = transactions d"

text \<open>
  Methods that change a balance and then raise while the record is inserted: the
  worst case of an error after a tentative mutation.
\<close>

definition faulty_models :: models where
  "faulty_models =
     \<lparr>User_transfer_money = (\<lambda>e sender recipient a d.
         (Inl OperationalError, set_user (sender\<lparr>balance := balance sender - a\<rparr>) d)),
      User_deposit = (\<lambda>e target a actor d.
         (Inl OperationalError, set_user (target\<lparr>balance := balance target + a\<rparr>) d))\<rparr>"

section \<open>The conversion of line 317\<close>

text \<open>
  \<^verbatim>\<open>float(x)\<close> gives the IEEE 754 double nearest to \<open>x\<close>, ties to the even
  significand; a value that is a double already is returned as it is. The double is
  modelled by the rational number it denotes: a significand of at most 53 bits times
  a power of two, with exponent at least \<open>-1074\<close>. Amounts beyond the largest double
  are outside the model.
\<close>

fun bit_length :: "nat \<Rightarrow> nat" where
  "bit_length n = (if n = 0 then 0 else Suc (bit_length (n div 2)))"

declare bit_length.simps [simp del]

definition pow2 :: "int \<Rightarrow> rat" where
  "pow2 k = (if 0 \<le> k then 2 ^ nat k else 1 / 2 ^ nat (- k))"

definition round_half_even :: "rat \<Rightarrow> int" where
  "round_half_even y =
     (let f = \<lfloor>y\<rfloor>; r = y - of_int f
      in if r < 1 / 2 then f
         else if 1 / 2 < r then f + 1
         else if even f then f else f + 1)"

definition float_exponent :: "rat \<Rightarrow> int" where
  "float_exponent a =
     (let l = (if 1 \<le> a then int (bit_length (nat \<lfloor>a\<rfloor>)) - 1
               else - int (bit_length (nat (\<lceil>1 / a\<rceil> - 1))))
      in max (l - 52) (- 1074))"

definition py_float64 :: "rat \<Rightarrow> rat" where
  "py_float64 x =
     (if x = 0 then 0
      else (let a = \<bar>x\<bar>; e = float_exponent a; m = round_half_even (a / pow2 e)
            in sgn x * of_int m * pow2 e))"

section \<open>A small bank for concrete runs\<close>

definition alice :: user where
  "alice = \<lparr>uid = 1, username = ''alice'', account_number = ''1001'', balance = 100,
            status = ''active'', is_admin = False, is_manager = False\<rparr>"

definition bob :: user where
  "bob = \<lparr>uid = 2, username = ''bob'', account_number = ''1002'', balance = 20,
          status = ''deactivated'', is_admin = False, is_manager = False\<rparr>"

definition carol :: user where
  "carol = \<lparr>uid = 3, username = ''carol'', account_number = ''1003'', balance = 0,
            status = ''active'', is_admin = True, is_manager = False\<rparr>"

definition dave :: user where
  "dave = \<lparr>uid = 4, username = ''dave'', account_number = ''1004'', balance = 5,
           status = ''pending'', is_admin = False, is_manager = True\<rparr>"

definition erin :: user where
  "erin = \<lparr>uid = 5, username = ''erin'', account_number = ''1005'', balance = 40,
           status = ''active'', is_admin = False, is_manager = False\<rparr>"

definition old_deposit :: txn where
  "old_deposit = \<lparr>sender_id = None, receiver_id = Some 1, amount = Some 100,
                  transaction_type = ''deposit'', details = Some ''carol'', timestamp = 10\<rparr>"

definition old_transfer :: txn where
  "old_transfer = \<lparr>sender_id = Some 5, receiver_id = Some 1, amount = Some 10,
                   transaction_type = ''transfer'', details = None, timestamp = 30\<rparr>"

definition old_edit :: txn where
  "old_edit = \<lparr>sender_id = Some 3, receiver_id = Some 5, amount = None,
               transaction_type = ''user_edit'', details = Some ''email'', timestamp = 20\<rparr>"

definition bank :: db where
  "bank = \<lparr>users = [alice, bob, carol, dave, erin],
           transactions = [old_deposit, old_edit, old_transfer]\<rparr>"

definition env0 :: env where
  "env0 = \<lparr>now = 1000, py_float = (\<lambda>x. x), append_fails = False, commit_fails = False\<rparr>"

definition to_bob :: transfer_form where
  "to_bob = \<lparr>transfer_type = ''username'', recipient_username = ''bob'',
             recipient_account = [], amount_data = 10, validate_on_submit = True\<rparr>"

definition to_erin :: transfer_form where
  "to_erin = \<lparr>transfer_type = ''account'', recipient_username = [],
              recipient_account = ''1005'', amount_data = 30, validate_on_submit = True\<rparr>"

definition all_to_erin :: transfer_form where
  "all_to_erin = \<lparr>transfer_type = ''account'', recipient_username = [],
              recipient_account = ''1005'', amount_data = 100, validate_on_submit = True\<rparr>"

definition too_much_to_erin :: transfer_form where
  "too_much_to_erin = \<lparr>transfer_type = ''username'', recipient_username = ''erin'',
              recipient_account = [], amount_data = 500, validate_on_submit = True\<rparr>"

definition to_nobody :: transfer_form where
  "to_nobody = \<lparr>transfer_type = ''username'', recipient_username = ''nobody'',
                recipient_account = [], amount_data = 10, validate_on_submit = True\<rparr>"

definition to_alice :: transfer_form where
  "to_alice = \<lparr>transfer_type = ''username'', recipient_username = ''alice'',
               recipient_account = [], amount_data = 10, validate_on_submit = True\<rparr>"

definition deposit_bob :: deposit_form where
  "deposit_bob = \<lparr>dep_account_number = ''1002'', dep_amount = 50,
                  dep_validate_on_submit = True\<rparr>"

definition deposit_alice :: deposit_form where
  "deposit_alice = \<lparr>dep_account_number = ''1001'', dep_amount = 50,
                    dep_validate_on_submit = True\<rparr>"

text \<open>
  The environment whose conversion is the double rounding, a transfer of one tenth,
  and a transfer of 100.000000000000000001 from an account that holds 100.
\<close>

definition env64 :: env where
  "env64 = \<lparr>now = 1000, py_float = py_float64, append_fails = False, commit_fails = False\<rparr>"

definition tenth_to_erin :: transfer_form where
  "tenth_to_erin = \<lparr>transfer_type = ''username'', recipient_username = ''erin'',
       recipient_account = [], amount_data = 1 / 10, validate_on_submit = True\<rparr>"

definition over_to_erin :: transfer_form where
  "over_to_erin = \<lparr>transfer_type = ''username'', recipient_username = ''erin'',
       recipient_account = [],
       amount_data = 100000000000000000001 / 1000000000000000000,
       validate_on_submit = True\<rparr>"

lemmas bank_defs = bank_def alice_def bob_def carol_def dave_def erin_def env0_def
  old_deposit_def old_transfer_def old_edit_def

lemmas form_defs = to_bob_def to_erin_def all_to_erin_def too_much_to_erin_def
  to_nobody_def to_alice_def deposit_bob_def deposit_alice_def

lemmas route_defs = dispatch_def login_required_def admin_required_def
  manager_required_def internal_error_def rollback_def begin_session_def commit_def

lemmas all_splits = if_splits option.splits prod.splits sum.splits bool.splits

lemmas lookup_defs = load_user_def query_get_def find_recipient_def
  filter_by_username_def filter_by_account_number_def

section \<open>Lookups after an assignment\<close>

lemma find_Some_mem: "find P xs = Some u \<Longrightarrow> u \<in> set xs \<and> P u"
  by (induction xs) (auto split: if_splits)

lemma find_set_user_same:
  "u \<in> set xs \<Longrightarrow> uid u' = uid u \<Longrightarrow>
   find (\<lambda>v. uid v = uid u) (map (\<lambda>v. if uid v = uid u' then u' else v) xs) = Some u'"
  by (induction xs) auto

lemma find_set_user_other:
  "uid u' \<noteq> i \<Longrightarrow>
   find (\<lambda>v. uid v = i) (map (\<lambda>v. if uid v = uid u' then u' else v) xs)
     = find (\<lambda>v. uid v = i) xs"
  by (induction xs) auto

lemma query_get_uid: "query_get i d = Some u \<Longrightarrow> uid u = i"
  using find_Some_mem[of "\<lambda>v. uid v = i" "users d" u] by (simp add: query_get_def)

lemma query_get_set_user_same:
  "query_get i d = Some u \<Longrightarrow> uid u' = i \<Longrightarrow> query_get i (set_user u' d) = Some u'"
  unfolding query_get_def set_user_def
  using find_Some_mem[of "\<lambda>v. uid v = i" "users d" u] find_set_user_same[of u "users d" u']
  by auto

lemma query_get_set_user_other:
  "uid u' \<noteq> i \<Longrightarrow> query_get i (set_user u' d) = query_get i d"
  unfolding query_get_def set_user_def
  by (simp add: find_set_user_other)

text \<open>
  The guard the routes write out, \<^verbatim>\<open>status != 'active' and not is_admin and not
  is_manager\<close>, is the negation of the specification's eligibility check.
\<close>

lemma guard_is_ineligible:
  "(status u \<noteq> ''active'' \<and> \<not> is_admin u \<and> \<not> is_manager u) \<longleftrightarrow> \<not> is_eligible u"
  by (simp add: is_eligible_def)

section \<open>Promotion and demotion by a manager\<close>

text \<open>
  Claim C10. When a manager toggles the admin flag of a user who is no manager and the
  commit goes through: a user who was not an admin becomes one and the status is set
  to active whatever it was, so the account passes the eligibility check from then
  on; a user who was an admin loses the flag and the status is the one it had.
\<close>

theorem toggle_admin_promotion_activates:
  assumes "load_user cu d = Some me" and "is_manager me"
    and "query_get i d = Some u" and "\<not> is_manager u" and "\<not> commit_fails e"
  shows "(\<not> is_admin u \<longrightarrow>
            (\<exists>s'. dispatch (toggle_admin e cu i) d
                      = (Redirect ''user_list'' (Some (Promoted (username u))), s')
                 \<and> working s' = committed s'
                 \<and> committed s' = set_user (u\<lparr>is_admin := True, status := ''active''\<rparr>) d
                 \<and> query_get i (committed s') = Some (u\<lparr>is_admin := True, status := ''active''\<rparr>)
                 \<and> is_eligible (u\<lparr>is_admin := True, status := ''active''\<rparr>)))
       \<and> (is_admin u \<longrightarrow>
            (\<exists>s'. dispatch (toggle_admin e cu i) d
                      = (Redirect ''admin_list'' (Some (Demoted (username u))), s')
                 \<and> working s' = committed s'
                 \<and> committed s' = set_user (u\<lparr>is_admin := False\<rparr>) d
                 \<and> query_get i (committed s') = Some (u\<lparr>is_admin := False\<rparr>)
                 \<and> status (u\<lparr>is_admin := False\<rparr>) = status u))"
proof -
  have ui: "uid u = i"
    using assms(3) by (rule query_get_uid)
  have q1: "query_get i (set_user (u\<lparr>is_admin := True, status := ''active''\<rparr>) d)
              = Some (u\<lparr>is_admin := True, status := ''active''\<rparr>)"
    using query_get_set_user_same[OF assms(3)] ui by simp
  have q2: "query_get i (set_user (u\<lparr>is_admin := False\<rparr>) d) = Some (u\<lparr>is_admin := False\<rparr>)"
    using query_get_set_user_same[OF assms(3)] ui by simp
  show ?thesis
    using assms q1 q2
    by (simp add: dispatch_def toggle_admin_def login_required_def manager_required_def
        toggle_admin_view_def begin_session_def commit_def is_eligible_def Let_def)
qed

theorem toggle_admin_promotion_activates_witness:
  "(\<exists>s'. dispatch (toggle_admin env0 (Some 4) 2) bank
             = (Redirect ''user_list'' (Some (Promoted ''bob'')), s')
        \<and> query_get 2 (committed s') = Some (bob\<lparr>is_admin := True, status := ''active''\<rparr>))
   \<and> status bob = ''deactivated''
   \<and> (\<exists>s'. dispatch (toggle_admin env0 (Some 4) 3) bank
             = (Redirect ''admin_list'' (Some (Demoted ''carol'')), s')
        \<and> query_get 3 (committed s') = Some (carol\<lparr>is_admin := False\<rparr>))"
proof -
  have m: "load_user (Some 4) bank = Some dave" "is_manager dave"
    by (simp_all add: load_user_def query_get_def bank_defs)
  have b: "query_get 2 bank = Some bob" "\<not> is_manager bob" "\<not> is_admin bob"
    by (simp_all add: query_get_def bank_defs)
  have c: "query_get 3 bank = Some carol" "\<not> is_manager carol" "is_admin carol"
    by (simp_all add: query_get_def bank_defs)
  have e: "\<not> commit_fails env0" by (simp add: env0_def)
  have nb: "username bob = ''bob''" "status bob = ''deactivated''" by (simp_all add: bob_def)
  have nc: "username carol = ''carol''" by (simp add: carol_def)
  show ?thesis
    using toggle_admin_promotion_activates[OF m b(1,2) e]
      toggle_admin_promotion_activates[OF m c(1,2) e] b(3) c(3) nb nc
    by auto
qed

section \<open>The eligibility gate\<close>

text \<open>
  Claim C6. A deposit by an admin whose target account is not active (deactivated,
  pending or any other status) and is neither admin nor manager is answered with
  'Cannot deposit to inactive account.', whatever the deposit method would do; nothing
  is pending or committed afterwards, so the target's balance is the one it had.
\<close>

theorem deposit_to_inactive_rejected:
  assumes "load_user cu d = Some me" and "is_admin me" and "dep_validate_on_submit form"
    and "filter_by_account_number (dep_account_number form) d = Some u"
    and "status u \<noteq> ''active''" and "\<not> is_admin u" and "\<not> is_manager u"
  shows "dispatch (admin_deposit M e cu form) d
           = (Redirect ''admin_deposit'' (Some Cannot_deposit_inactive), begin_session d)
       \<and> committed (snd (dispatch (admin_deposit M e cu form) d)) = d
       \<and> balance_of (uid u) (committed (snd (dispatch (admin_deposit M e cu form) d)))
           = balance_of (uid u) d"
  using assms
  by (simp add: route_defs admin_deposit_def admin_deposit_view_def)

theorem deposit_to_inactive_rejected_witness:
  "dispatch (admin_deposit spec_models env0 (Some 3) deposit_bob) bank
     = (Redirect ''admin_deposit'' (Some Cannot_deposit_inactive), begin_session bank)
   \<and> status bob = ''deactivated''
   \<and> balance_of 2 (committed (snd (dispatch
        (admin_deposit spec_models env0 (Some 3) deposit_bob) bank))) = Some 20"
proof -
  have h: "load_user (Some 3) bank = Some carol" "is_admin carol"
    "dep_validate_on_submit deposit_bob"
    "filter_by_account_number (dep_account_number deposit_bob) bank = Some bob"
    "status bob \<noteq> ''active''" "\<not> is_admin bob" "\<not> is_manager bob"
    by (simp_all add: lookup_defs bank_defs form_defs)
  have b: "uid bob = 2" "balance_of 2 bank = Some 20" "status bob = ''deactivated''"
    by (simp_all add: balance_of_def query_get_def bank_defs)
  show ?thesis
    using deposit_to_inactive_rejected[OF h, of spec_models env0] b
    by (simp add: begin_session_def)
qed

text \<open>
  Claim C7. The two mutating routes test every party with the eligibility check of the
  specification, \<open>is_eligible\<close>: \<^verbatim>\<open>execute_transfer\<close> tests the sender (lines
  311-313) and the recipient (lines 331-333), \<^verbatim>\<open>admin_deposit\<close> tests the target
  (lines 473-475). An ineligible sender is answered with 'Your account is awaiting
  approval from an administrator.', an ineligible recipient with 'The recipient
  account is not active.', an ineligible target with 'Cannot deposit to inactive
  account.', each without any pending or committed change; and each of the three
  answers is given only when that party is ineligible.
\<close>

theorem eligibility_checked_on_every_party:
  assumes "load_user cu d = Some me"
  shows "(\<not> is_eligible me \<longrightarrow>
            dispatch (execute_transfer M e cu form) d
              = (Redirect ''index'' (Some Awaiting_approval), begin_session d))
       \<and> (is_eligible me \<and> validate_on_submit form \<and> find_recipient form d = Some r
            \<and> \<not> is_eligible r \<longrightarrow>
            dispatch (execute_transfer M e cu form) d
              = (Redirect ''transfer'' (Some Recipient_not_active), begin_session d))
       \<and> (is_admin me \<and> dep_validate_on_submit dform
            \<and> filter_by_account_number (dep_account_number dform) d = Some u
            \<and> \<not> is_eligible u \<longrightarrow>
            dispatch (admin_deposit M e cu dform) d
              = (Redirect ''admin_deposit'' (Some Cannot_deposit_inactive), begin_session d))
       \<and> (fst (dispatch (execute_transfer M e cu form) d)
              = Redirect ''index'' (Some Awaiting_approval) \<longrightarrow> \<not> is_eligible me)
       \<and> (fst (dispatch (execute_transfer M e cu form) d)
              = Redirect ''transfer'' (Some Recipient_not_active) \<longrightarrow>
            (\<exists>r'. find_recipient form d = Some r' \<and> \<not> is_eligible r'))
       \<and> (fst (dispatch (admin_deposit M e cu dform) d)
              = Redirect ''admin_deposit'' (Some Cannot_deposit_inactive) \<longrightarrow>
            (\<exists>u'. filter_by_account_number (dep_account_number dform) d = Some u'
                  \<and> \<not> is_eligible u'))"
proof (intro conjI impI)
  assume "\<not> is_eligible me"
  then show "dispatch (execute_transfer M e cu form) d
              = (Redirect ''index'' (Some Awaiting_approval), begin_session d)"
    using assms by (simp add: route_defs execute_transfer_def execute_transfer_view_def
        guard_is_ineligible)
next
  assume "is_eligible me \<and> validate_on_submit form \<and> find_recipient form d = Some r
            \<and> \<not> is_eligible r"
  then show "dispatch (execute_transfer M e cu form) d
              = (Redirect ''transfer'' (Some Recipient_not_active), begin_session d)"
    using assms by (simp add: route_defs execute_transfer_def execute_transfer_view_def
        guard_is_ineligible)
next
  assume "is_admin me \<and> dep_validate_on_submit dform
            \<and> filter_by_account_number (dep_account_number dform) d = Some u
            \<and> \<not> is_eligible u"
  then show "dispatch (admin_deposit M e cu dform) d
              = (Redirect ''admin_deposit'' (Some Cannot_deposit_inactive), begin_session d)"
    using assms by (simp add: route_defs admin_deposit_def admin_deposit_view_def
        guard_is_ineligible)
next
  assume "fst (dispatch (execute_transfer M e cu form) d)
              = Redirect ''index'' (Some Awaiting_approval)"
  then show "\<not> is_eligible me"
    using assms by (auto simp add: route_defs execute_transfer_def execute_transfer_view_def
        guard_is_ineligible Let_def
        split: if_splits option.splits prod.splits sum.splits bool.splits)
next
  assume "fst (dispatch (execute_transfer M e cu form) d)
              = Redirect ''transfer'' (Some Recipient_not_active)"
  then show "\<exists>r'. find_recipient form d = Some r' \<and> \<not> is_eligible r'"
    using assms by (auto simp add: route_defs execute_transfer_def execute_transfer_view_def
        guard_is_ineligible Let_def
        split: if_splits option.splits prod.splits sum.splits bool.splits)
next
  assume "fst (dispatch (admin_deposit M e cu dform) d)
              = Redirect ''admin_deposit'' (Some Cannot_deposit_inactive)"
  then show "\<exists>u'. filter_by_account_number (dep_account_number dform) d = Some u'
                  \<and> \<not> is_eligible u'"
    using assms by (auto simp add: route_defs admin_deposit_def admin_deposit_view_def
        guard_is_ineligible Let_def
        split: if_splits option.splits prod.splits sum.splits bool.splits)
qed

theorem eligibility_checked_on_every_party_witness:
  "dispatch (execute_transfer spec_models env0 (Some 2) to_erin) bank
     = (Redirect ''index'' (Some Awaiting_approval), begin_session bank)
   \<and> dispatch (execute_transfer spec_models env0 (Some 1) to_bob) bank
     = (Redirect ''transfer'' (Some Recipient_not_active), begin_session bank)
   \<and> dispatch (admin_deposit spec_models env0 (Some 3) deposit_bob) bank
     = (Redirect ''admin_deposit'' (Some Cannot_deposit_inactive), begin_session bank)"
proof -
  have s: "load_user (Some 2) bank = Some bob" "\<not> is_eligible bob"
    by (simp_all add: lookup_defs is_eligible_def bank_defs)
  have r: "load_user (Some 1) bank = Some alice"
    "is_eligible alice \<and> validate_on_submit to_bob \<and> find_recipient to_bob bank = Some bob
       \<and> \<not> is_eligible bob"
    by (simp_all add: lookup_defs is_eligible_def bank_defs form_defs)
  have t: "load_user (Some 3) bank = Some carol"
    "is_admin carol \<and> dep_validate_on_submit deposit_bob
       \<and> filter_by_account_number (dep_account_number deposit_bob) bank = Some bob
       \<and> \<not> is_eligible bob"
    by (simp_all add: lookup_defs is_eligible_def bank_defs form_defs)
  show ?thesis
    using eligibility_checked_on_every_party[OF s(1), of spec_models env0 to_erin] s(2)
      eligibility_checked_on_every_party[OF r(1), of spec_models env0 to_bob bob] r(2)
      eligibility_checked_on_every_party[OF t(1), of spec_models env0 to_bob bob
        deposit_bob bob] t(2)
    by blast
qed

section \<open>The transaction history of an account\<close>

lemma sorted_desc_order_by:
  "sorted_wrt (\<lambda>a b. timestamp b \<le> timestamp a) (order_by_timestamp_desc ts)"
proof -
  have "sorted (map (\<lambda>t. - timestamp t) (sort_key (\<lambda>t. - timestamp t) ts))"
    by (rule sorted_sort_key)
  then show ?thesis
    by (simp add: order_by_timestamp_desc_def sorted_map)
qed

lemma mset_order_by: "mset (order_by_timestamp_desc ts) = mset ts"
  by (simp add: order_by_timestamp_desc_def)

lemma length_order_by: "length (order_by_timestamp_desc ts) = length ts"
  by (simp add: order_by_timestamp_desc_def)

lemma set_order_by: "set (order_by_timestamp_desc ts) = set ts"
  by (simp add: order_by_timestamp_desc_def)

text \<open>
  Claim C8. The query of \<^verbatim>\<open>admin_user_transactions\<close> (lines 709-711) returns the
  records of the ledger in which the account is the sender or the receiver, each as
  often as the ledger holds it and no other record; the result is ordered by falling
  timestamp (newest first); it has as many entries as the ledger has records that
  involve the account, and adding one record to the session lengthens it by one if
  the record involves the account and not at all otherwise, so that N operations that
  each add one record involving the account give N entries. The route renders this
  list for an admin.
\<close>

theorem user_transactions_history:
  "mset (user_transactions i d) = filter_mset (involves i) (mset (transactions d))
   \<and> set (user_transactions i d)
       = {t \<in> set (transactions d). sender_id t = Some i \<or> receiver_id t = Some i}
   \<and> sorted_wrt (\<lambda>a b. timestamp b \<le> timestamp a) (user_transactions i d)
   \<and> length (user_transactions i d) = length (filter (involves i) (transactions d))
   \<and> length (user_transactions i (session_add t d))
       = length (user_transactions i d) + (if involves i t then 1 else 0)
   \<and> (load_user cu d = Some me \<and> is_admin me \<and> query_get i d = Some u \<longrightarrow>
        dispatch (admin_user_transactions cu i) d
          = (Render_transactions u (user_transactions i d), begin_session d))"
proof (intro conjI impI)
  show "mset (user_transactions i d) = filter_mset (involves i) (mset (transactions d))"
    by (simp add: user_transactions_def mset_order_by)
  show "set (user_transactions i d)
       = {t \<in> set (transactions d). sender_id t = Some i \<or> receiver_id t = Some i}"
    by (auto simp add: user_transactions_def set_order_by involves_def)
  show "sorted_wrt (\<lambda>a b. timestamp b \<le> timestamp a) (user_transactions i d)"
    by (simp add: user_transactions_def sorted_desc_order_by)
  show "length (user_transactions i d) = length (filter (involves i) (transactions d))"
    by (simp add: user_transactions_def length_order_by)
  show "length (user_transactions i (session_add t d))
       = length (user_transactions i d) + (if involves i t then 1 else 0)"
    by (simp add: user_transactions_def length_order_by session_add_def)
next
  assume a: "load_user cu d = Some me \<and> is_admin me \<and> query_get i d = Some u"
  then have "uid u = i" using query_get_uid by blast
  with a show "dispatch (admin_user_transactions cu i) d
          = (Render_transactions u (user_transactions i d), begin_session d)"
    by (simp add: route_defs admin_user_transactions_def admin_user_transactions_view_def)
qed

theorem user_transactions_history_witness:
  "dispatch (admin_user_transactions (Some 3) 1) bank
     = (Render_transactions alice [old_transfer, old_deposit], begin_session bank)
   \<and> length (user_transactions 1 bank) = 2
   \<and> timestamp old_deposit \<le> timestamp old_transfer"
proof -
  have a: "load_user (Some 3) bank = Some carol \<and> is_admin carol
             \<and> query_get 1 bank = Some alice"
    by (simp add: load_user_def query_get_def bank_defs)
  have v: "user_transactions 1 bank = [old_transfer, old_deposit]"
    by (simp add: user_transactions_def order_by_timestamp_desc_def involves_def bank_defs)
  show ?thesis
    using user_transactions_history[of 1 bank old_edit "Some 3" carol alice] a v
    by (simp add: old_deposit_def old_transfer_def)
qed

section \<open>The unit of work\<close>

text \<open>
  What a request to a mutating route can leave behind, for any pair of model methods:
  either nothing is committed, or the method returned a true value and the whole of
  the working state it left is committed.
\<close>

lemma execute_transfer_cases:
  "dispatch (execute_transfer M e cu form) d = (r, s') \<Longrightarrow>
   (\<not> succeeded r \<and> committed s' = d) \<or>
   (\<exists>me rc w. load_user cu d = Some me \<and> find_recipient form d = Some rc
       \<and> User_transfer_money M e me rc (py_float e (amount_data form)) d = (Inr True, w)
       \<and> s' = begin_session w
       \<and> r = Redirect ''account''
               (Some (Transferred (py_float e (amount_data form)) (username rc))))"
  by (auto simp add: route_defs execute_transfer_def execute_transfer_view_def Let_def
      split: all_splits)

lemma execute_transfer_error_rolls_back:
  "dispatch (execute_transfer M e cu form) d = (Server_error, s') \<Longrightarrow> s' = begin_session d"
  by (auto simp add: route_defs execute_transfer_def execute_transfer_view_def Let_def
      split: all_splits)

lemma admin_deposit_cases:
  "dispatch (admin_deposit M e cu form) d = (r, s') \<Longrightarrow>
   (\<not> succeeded r \<and> committed s' = d) \<or>
   (\<exists>me u w. load_user cu d = Some me
       \<and> filter_by_account_number (dep_account_number form) d = Some u
       \<and> User_deposit M e u (dep_amount form) me d = (Inr True, w)
       \<and> s' = begin_session w
       \<and> r = Redirect ''admin_dashboard'' (Some (Deposited (dep_amount form) (username u))))"
  by (auto simp add: route_defs admin_deposit_def admin_deposit_view_def Let_def
      split: all_splits)

lemma admin_deposit_error_rolls_back:
  "dispatch (admin_deposit M e cu form) d = (Server_error, s') \<Longrightarrow> s' = begin_session d"
  by (auto simp add: route_defs admin_deposit_def admin_deposit_view_def Let_def
      split: all_splits)

lemma execute_transfer_method_raises:
  "load_user cu d = Some me \<and> is_eligible me \<and> validate_on_submit form
     \<and> find_recipient form d = Some rc \<and> is_eligible rc
     \<and> User_transfer_money M e me rc (py_float e (amount_data form)) d = (Inl x, w)
   \<Longrightarrow> dispatch (execute_transfer M e cu form) d = (Server_error, begin_session d)"
  by (simp add: route_defs execute_transfer_def execute_transfer_view_def Let_def
      guard_is_ineligible)

lemma admin_deposit_method_raises:
  "load_user cu d = Some me \<and> is_admin me \<and> dep_validate_on_submit form
     \<and> filter_by_account_number (dep_account_number form) d = Some u \<and> is_eligible u
     \<and> User_deposit M e u (dep_amount form) me d = (Inl x, w)
   \<Longrightarrow> dispatch (admin_deposit M e cu form) d = (Server_error, begin_session d)"
  by (simp add: route_defs admin_deposit_def admin_deposit_view_def Let_def
      guard_is_ineligible)

text \<open>
  Claim C2. For any pair of model methods, a transfer or deposit request that does
  not end with the success message leaves the committed state exactly as it was
  before the request; this includes a method that returns a false value or raises
  after it has changed a balance in the session (the handler of the internal error
  rolls the session back, so nothing stays pending either) and a commit that the
  store refuses. A request that succeeds commits the whole working state the method
  left on returning a true value, with nothing pending. Hence a committed state is
  either the old one or the complete result of the method: if the method never
  returns true with a changed balance and no added record, no committed state has a
  changed balance without an added record.
\<close>

theorem unit_of_work_commits_or_aborts:
  "(\<not> succeeded (fst (dispatch (execute_transfer M e cu form) d)) \<longrightarrow>
      committed (snd (dispatch (execute_transfer M e cu form) d)) = d)
   \<and> (\<not> succeeded (fst (dispatch (admin_deposit M e cu dform) d)) \<longrightarrow>
      committed (snd (dispatch (admin_deposit M e cu dform) d)) = d)
   \<and> (fst (dispatch (execute_transfer M e cu form) d) = Server_error \<longrightarrow>
      snd (dispatch (execute_transfer M e cu form) d) = begin_session d)
   \<and> (fst (dispatch (admin_deposit M e cu dform) d) = Server_error \<longrightarrow>
      snd (dispatch (admin_deposit M e cu dform) d) = begin_session d)
   \<and> (load_user cu d = Some me \<and> is_eligible me \<and> validate_on_submit form
        \<and> find_recipient form d = Some rc \<and> is_eligible rc
        \<and> User_transfer_money M e me rc (py_float e (amount_data form)) d = (Inl x, w) \<longrightarrow>
      dispatch (execute_transfer M e cu form) d = (Server_error, begin_session d))
   \<and> (load_user cu d = Some me \<and> is_admin me \<and> dep_validate_on_submit dform
        \<and> filter_by_account_number (dep_account_number dform) d = Some u \<and> is_eligible u
        \<and> User_deposit M e u (dep_amount dform) me d = (Inl x, w) \<longrightarrow>
      dispatch (admin_deposit M e cu dform) d = (Server_error, begin_session d))
   \<and> (succeeded (fst (dispatch (execute_transfer M e cu form) d)) \<longrightarrow>
      (\<exists>sender recipient. load_user cu d = Some sender
          \<and> find_recipient form d = Some recipient
          \<and> User_transfer_money M e sender recipient (py_float e (amount_data form)) d
              = (Inr True, committed (snd (dispatch (execute_transfer M e cu form) d)))
          \<and> working (snd (dispatch (execute_transfer M e cu form) d))
              = committed (snd (dispatch (execute_transfer M e cu form) d))))
   \<and> (succeeded (fst (dispatch (admin_deposit M e cu dform) d)) \<longrightarrow>
      (\<exists>actor target. load_user cu d = Some actor
          \<and> filter_by_account_number (dep_account_number dform) d = Some target
          \<and> User_deposit M e target (dep_amount dform) actor d
              = (Inr True, committed (snd (dispatch (admin_deposit M e cu dform) d)))
          \<and> working (snd (dispatch (admin_deposit M e cu dform) d))
              = committed (snd (dispatch (admin_deposit M e cu dform) d))))
   \<and> ((\<forall>sender recipient a v. User_transfer_money M e sender recipient a d = (Inr True, v)
            \<and> balances v \<noteq> balances d \<longrightarrow> record_added d v)
        \<and> balances (committed (snd (dispatch (execute_transfer M e cu form) d))) \<noteq> balances d
        \<longrightarrow> record_added d (committed (snd (dispatch (execute_transfer M e cu form) d))))
   \<and> ((\<forall>target a actor v. User_deposit M e target a actor d = (Inr True, v)
            \<and> balances v \<noteq> balances d \<longrightarrow> record_added d v)
        \<and> balances (committed (snd (dispatch (admin_deposit M e cu dform) d))) \<noteq> balances d
        \<longrightarrow> record_added d (committed (snd (dispatch (admin_deposit M e cu dform) d))))"
proof -
  obtain r s where t: "dispatch (execute_transfer M e cu form) d = (r, s)"
    by (cases "dispatch (execute_transfer M e cu form) d")
  obtain r' s' where p: "dispatch (admin_deposit M e cu dform) d = (r', s')"
    by (cases "dispatch (admin_deposit M e cu dform) d")
  note ct = execute_transfer_cases[OF t]
  note cp = admin_deposit_cases[OF p]
  have 1: "\<not> succeeded r \<longrightarrow> committed s = d"
    using ct by auto
  have 2: "\<not> succeeded r' \<longrightarrow> committed s' = d"
    using cp by auto
  have 3: "r = Server_error \<longrightarrow> s = begin_session d"
    using execute_transfer_error_rolls_back t by blast
  have 4: "r' = Server_error \<longrightarrow> s' = begin_session d"
    using admin_deposit_error_rolls_back p by blast
  have 5: "load_user cu d = Some me \<and> is_eligible me \<and> validate_on_submit form
        \<and> find_recipient form d = Some rc \<and> is_eligible rc
        \<and> User_transfer_money M e me rc (py_float e (amount_data form)) d = (Inl x, w) \<longrightarrow>
      dispatch (execute_transfer M e cu form) d = (Server_error, begin_session d)"
    using execute_transfer_method_raises by blast
  have 6: "load_user cu d = Some me \<and> is_admin me \<and> dep_validate_on_submit dform
        \<and> filter_by_account_number (dep_account_number dform) d = Some u \<and> is_eligible u
        \<and> User_deposit M e u (dep_amount dform) me d = (Inl x, w) \<longrightarrow>
      dispatch (admin_deposit M e cu dform) d = (Server_error, begin_session d)"
    using admin_deposit_method_raises by blast
  have 7: "succeeded r \<longrightarrow>
      (\<exists>sender recipient. load_user cu d = Some sender
          \<and> find_recipient form d = Some recipient
          \<and> User_transfer_money M e sender recipient (py_float e (amount_data form)) d
              = (Inr True, committed s)
          \<and> working s = committed s)"
    using ct by (auto simp add: begin_session_def)
  have 8: "succeeded r' \<longrightarrow>
      (\<exists>actor target. load_user cu d = Some actor
          \<and> filter_by_account_number (dep_account_number dform) d = Some target
          \<and> User_deposit M e target (dep_amount dform) actor d = (Inr True, committed s')
          \<and> working s' = committed s')"
    using cp by (auto simp add: begin_session_def)
  have 9: "(\<forall>sender recipient a v. User_transfer_money M e sender recipient a d = (Inr True, v)
            \<and> balances v \<noteq> balances d \<longrightarrow> record_added d v)
        \<and> balances (committed s) \<noteq> balances d \<longrightarrow> record_added d (committed s)"
    using ct by (auto simp add: begin_session_def)
  have 10: "(\<forall>target a actor v. User_deposit M e target a actor d = (Inr True, v)
            \<and> balances v \<noteq> balances d \<longrightarrow> record_added d v)
        \<and> balances (committed s') \<noteq> balances d \<longrightarrow> record_added d (committed s')"
    using cp by (auto simp add: begin_session_def)
  show ?thesis
    unfolding t p fst_conv snd_conv
    using 1 2 3 4 5[unfolded t] 6[unfolded p] 7 8 9 10 by blast
qed

theorem unit_of_work_commits_or_aborts_witness:
  "dispatch (execute_transfer faulty_models env0 (Some 1) to_erin) bank
     = (Server_error, begin_session bank)
   \<and> balances (snd (User_transfer_money faulty_models env0 alice erin 30 bank)) \<noteq> balances bank
   \<and> dispatch (admin_deposit faulty_models env0 (Some 3) deposit_alice) bank
     = (Server_error, begin_session bank)
   \<and> committed (snd (dispatch (execute_transfer spec_models env0 (Some 1)
        too_much_to_erin) bank)) = bank"
proof -
  have a: "load_user (Some 1) bank = Some alice \<and> is_eligible alice \<and> validate_on_submit to_erin
        \<and> find_recipient to_erin bank = Some erin \<and> is_eligible erin
        \<and> User_transfer_money faulty_models env0 alice erin (py_float env0 (amount_data to_erin)) bank
           = (Inl OperationalError, set_user (alice\<lparr>balance := balance alice - 30\<rparr>) bank)"
    by (simp add: lookup_defs is_eligible_def bank_defs form_defs faulty_models_def)
  have b: "load_user (Some 3) bank = Some carol \<and> is_admin carol
        \<and> dep_validate_on_submit deposit_alice
        \<and> filter_by_account_number (dep_account_number deposit_alice) bank = Some alice
        \<and> is_eligible alice
        \<and> User_deposit faulty_models env0 alice (dep_amount deposit_alice) carol bank
           = (Inl OperationalError, set_user (alice\<lparr>balance := balance alice + 50\<rparr>) bank)"
    by (simp add: lookup_defs is_eligible_def bank_defs form_defs faulty_models_def)
  have c: "balances (snd (User_transfer_money faulty_models env0 alice erin 30 bank))
             \<noteq> balances bank"
    by (simp add: faulty_models_def balances_def set_user_def bank_defs)
  have f: "\<not> succeeded (fst (dispatch (execute_transfer spec_models env0 (Some 1)
        too_much_to_erin) bank))"
    by (simp add: route_defs execute_transfer_def execute_transfer_view_def lookup_defs
        bank_defs form_defs spec_models_def method_result_def transfer_money_def
        is_eligible_def)
  have w1: "dispatch (execute_transfer faulty_models env0 (Some 1) to_erin) bank
     = (Server_error, begin_session bank)"
    by (rule unit_of_work_commits_or_aborts[THEN conjunct2, THEN conjunct2, THEN conjunct2,
          THEN conjunct2, THEN conjunct1, THEN mp, OF a])
  have w2: "dispatch (admin_deposit faulty_models env0 (Some 3) deposit_alice) bank
     = (Server_error, begin_session bank)"
    by (rule unit_of_work_commits_or_aborts[THEN conjunct2, THEN conjunct2, THEN conjunct2,
          THEN conjunct2, THEN conjunct2, THEN conjunct1, THEN mp, OF b])
  have w3: "committed (snd (dispatch (execute_transfer spec_models env0 (Some 1)
        too_much_to_erin) bank)) = bank"
    by (rule unit_of_work_commits_or_aborts[THEN conjunct1, THEN mp, OF f])
  show ?thesis
    using w1 w2 w3 c by (intro conjI)
qed

section \<open>A recipient that cannot be resolved\<close>

text \<open>
  Claim C4. The claim says that a transfer whose recipient does not exist is reported
  as not found and never raises. \<^verbatim>\<open>execute_transfer\<close> does so (lines 326-328), but
  \<^verbatim>\<open>transfer\<close> does not: with a validated form that names no existing user and an
  amount the balance covers, the guard of line 276 lets \<^verbatim>\<open>None\<close> pass and line 285
  reads \<^verbatim>\<open>recipient.status\<close>, which raises \<^verbatim>\<open>AttributeError\<close>; the request ends in
  the handler of the internal error. The run below is alice, who holds 100, sending
  10 to the unknown user 'nobody'.
\<close>

theorem transfer_unknown_recipient_raises:
  "transfer (Some 1) to_nobody (begin_session bank) = (Inl AttributeError, begin_session bank)
   \<and> dispatch (transfer (Some 1) to_nobody) bank = (Server_error, begin_session bank)
   \<and> dispatch (execute_transfer spec_models env0 (Some 1) to_nobody) bank
       = (Redirect ''transfer'' (Some Recipient_not_found), begin_session bank)"
  by (simp add: route_defs transfer_def transfer_view_def execute_transfer_def
      execute_transfer_view_def lookup_defs bank_defs form_defs)

section \<open>The operations of the specification behind the routes\<close>

lemma transfer_money_self: "uid sender = uid recipient \<Longrightarrow>
   transfer_money e sender recipient a d = Inl SelfTransfer"
  by (simp add: transfer_money_def)

lemma transfer_money_insufficient:
  "uid sender \<noteq> uid recipient \<Longrightarrow> is_eligible sender \<Longrightarrow> is_eligible recipient \<Longrightarrow>
   0 \<le> balance sender \<Longrightarrow> balance sender < a \<Longrightarrow>
   transfer_money e sender recipient a d = Inl InsufficientFunds"
  by (simp add: transfer_money_def)

lemma transfer_money_covered:
  "a \<le> balance sender \<Longrightarrow> transfer_money e sender recipient a d \<noteq> Inl InsufficientFunds"
  by (simp add: transfer_money_def Let_def record_txn_def)

lemma transfer_read_only: "snd (dispatch (transfer cu form) d) = begin_session d"
  by (simp add: route_defs transfer_def transfer_view_def Let_def split: all_splits)

lemma transfer_never_succeeds: "\<not> succeeded (fst (dispatch (transfer cu form) d))"
  by (simp add: route_defs transfer_def transfer_view_def Let_def split: all_splits)

text \<open>
  Claim C1. For an eligible sender and a validated form: when the amount exceeds the
  sender's balance and the recipient is not the sender, \<^verbatim>\<open>transfer\<close> answers
  'Insufficient funds for this transfer.' (lines 280-282) with nothing pending or
  committed, so both balances and the ledger are as before; when the amount is at
  most the balance (equality included) that answer is not given. On the executing
  route the balance test is the method's: whenever the method refuses, the route
  answers 'Transfer failed. Please check your balance.' and commits nothing (lines
  339-341); the transfer of the specification refuses with \<open>InsufficientFunds\<close> when
  the amount exceeds the balance of an otherwise valid transfer, and never with
  \<open>InsufficientFunds\<close> when the balance covers the amount.
\<close>

theorem insufficient_funds_rejected:
  assumes "load_user cu d = Some me" and "is_eligible me" and "validate_on_submit form"
  shows "((\<forall>r. find_recipient form d = Some r \<longrightarrow> uid r \<noteq> uid me)
            \<and> balance me < amount_data form \<longrightarrow>
          dispatch (transfer cu form) d
            = (Redirect ''transfer'' (Some Insufficient_funds), begin_session d))
       \<and> (amount_data form \<le> balance me \<longrightarrow>
          fst (dispatch (transfer cu form) d) \<noteq> Redirect ''transfer'' (Some Insufficient_funds))
       \<and> (find_recipient form d = Some r \<and> is_eligible r
            \<and> User_transfer_money M e me r (py_float e (amount_data form)) d = (Inr False, w) \<longrightarrow>
          fst (dispatch (execute_transfer M e cu form) d)
            = Redirect ''transfer'' (Some Transfer_failed)
          \<and> committed (snd (dispatch (execute_transfer M e cu form) d)) = d)
       \<and> (find_recipient form d = Some r \<and> is_eligible r \<and> uid r \<noteq> uid me
            \<and> 0 \<le> balance me \<and> balance me < py_float e (amount_data form) \<longrightarrow>
          transfer_money e me r (py_float e (amount_data form)) d = Inl InsufficientFunds
          \<and> dispatch (execute_transfer spec_models e cu form) d
            = (Redirect ''transfer'' (Some Transfer_failed), begin_session d))
       \<and> (a \<le> balance me \<longrightarrow> transfer_money e me r a d \<noteq> Inl InsufficientFunds)"
proof (intro conjI impI)
  assume h: "(\<forall>r. find_recipient form d = Some r \<longrightarrow> uid r \<noteq> uid me)
            \<and> balance me < amount_data form"
  then show "dispatch (transfer cu form) d
            = (Redirect ''transfer'' (Some Insufficient_funds), begin_session d)"
    using assms
    by (cases "find_recipient form d")
       (simp_all add: route_defs transfer_def transfer_view_def Let_def guard_is_ineligible)
next
  assume "amount_data form \<le> balance me"
  then show "fst (dispatch (transfer cu form) d)
               \<noteq> Redirect ''transfer'' (Some Insufficient_funds)"
    using assms
    by (simp add: route_defs transfer_def transfer_view_def Let_def guard_is_ineligible
        split: all_splits)
next
  assume h: "find_recipient form d = Some r \<and> is_eligible r
            \<and> User_transfer_money M e me r (py_float e (amount_data form)) d = (Inr False, w)"
  then show "fst (dispatch (execute_transfer M e cu form) d)
            = Redirect ''transfer'' (Some Transfer_failed)"
    using assms
    by (simp add: route_defs execute_transfer_def execute_transfer_view_def Let_def
        guard_is_ineligible)
  from h show "committed (snd (dispatch (execute_transfer M e cu form) d)) = d"
    using assms
    by (simp add: route_defs execute_transfer_def execute_transfer_view_def Let_def
        guard_is_ineligible)
next
  assume h: "find_recipient form d = Some r \<and> is_eligible r \<and> uid r \<noteq> uid me
            \<and> 0 \<le> balance me \<and> balance me < py_float e (amount_data form)"
  then show i: "transfer_money e me r (py_float e (amount_data form)) d = Inl InsufficientFunds"
    using assms by (simp add: transfer_money_insufficient)
  from h i show "dispatch (execute_transfer spec_models e cu form) d
            = (Redirect ''transfer'' (Some Transfer_failed), begin_session d)"
    using assms
    by (simp add: route_defs execute_transfer_def execute_transfer_view_def Let_def
        guard_is_ineligible spec_models_def method_result_def)
next
  assume "a \<le> balance me"
  then show "transfer_money e me r a d \<noteq> Inl InsufficientFunds"
    by (rule transfer_money_covered)
qed

theorem insufficient_funds_rejected_witness:
  "dispatch (transfer (Some 1) too_much_to_erin) bank
     = (Redirect ''transfer'' (Some Insufficient_funds), begin_session bank)
   \<and> fst (dispatch (transfer (Some 1) all_to_erin) bank)
       \<noteq> Redirect ''transfer'' (Some Insufficient_funds)
   \<and> balance alice = amount_data all_to_erin
   \<and> dispatch (execute_transfer spec_models env0 (Some 1) too_much_to_erin) bank
     = (Redirect ''transfer'' (Some Transfer_failed), begin_session bank)
   \<and> transfer_money env0 alice erin 100 bank \<noteq> Inl InsufficientFunds"
proof -
  have a: "load_user (Some 1) bank = Some alice" "is_eligible alice"
    by (simp_all add: lookup_defs is_eligible_def bank_defs)
  have v: "validate_on_submit too_much_to_erin" "validate_on_submit all_to_erin"
    by (simp_all add: form_defs)
  have h1: "(\<forall>r. find_recipient too_much_to_erin bank = Some r \<longrightarrow> uid r \<noteq> uid alice)
            \<and> balance alice < amount_data too_much_to_erin"
    by (simp add: lookup_defs bank_defs form_defs)
  have h2: "amount_data all_to_erin \<le> balance alice" "balance alice = amount_data all_to_erin"
    by (simp_all add: bank_defs form_defs)
  have h4: "find_recipient too_much_to_erin bank = Some erin \<and> is_eligible erin
            \<and> uid erin \<noteq> uid alice \<and> 0 \<le> balance alice
            \<and> balance alice < py_float env0 (amount_data too_much_to_erin)"
    by (simp add: lookup_defs is_eligible_def bank_defs form_defs)
  have h5: "(100::rat) \<le> balance alice"
    by (simp add: bank_defs)
  note T = insufficient_funds_rejected[OF a v(1)]
  note U = insufficient_funds_rejected[OF a v(2)]
  have w1: "dispatch (transfer (Some 1) too_much_to_erin) bank
     = (Redirect ''transfer'' (Some Insufficient_funds), begin_session bank)"
    by (rule T[THEN conjunct1, THEN mp, OF h1])
  have w2: "fst (dispatch (transfer (Some 1) all_to_erin) bank)
       \<noteq> Redirect ''transfer'' (Some Insufficient_funds)"
    by (rule U[THEN conjunct2, THEN conjunct1, THEN mp, OF h2(1)])
  have w3: "dispatch (execute_transfer spec_models env0 (Some 1) too_much_to_erin) bank
     = (Redirect ''transfer'' (Some Transfer_failed), begin_session bank)"
    by (rule T[THEN conjunct2, THEN conjunct2, THEN conjunct2, THEN conjunct1, THEN mp,
          OF h4, THEN conjunct2])
  have w4: "transfer_money env0 alice erin 100 bank \<noteq> Inl InsufficientFunds"
    by (rule T[THEN conjunct2, THEN conjunct2, THEN conjunct2, THEN conjunct2, THEN mp,
          OF h5])
  show ?thesis
    using w1 w2 w3 w4 h2(2) by (intro conjI)
qed

text \<open>
  Claim C3. A transfer whose recipient resolves to the sender: \<^verbatim>\<open>transfer\<close> answers
  'You cannot transfer money to yourself.' for every amount (lines 276-278).
  \<^verbatim>\<open>execute_transfer\<close> has no test of its own and hands the account to the method
  as sender and recipient; the transfer of the specification refuses with
  \<open>SelfTransfer\<close> for every amount, and the route answers 'Transfer failed. Please
  check your balance.'. On both routes the request does not succeed and nothing is
  pending or committed: the balance is unchanged and no record is created.
\<close>

theorem self_transfer_rejected:
  assumes "load_user cu d = Some me" and "find_recipient form d = Some me"
  shows "(is_eligible me \<and> validate_on_submit form \<longrightarrow>
          dispatch (transfer cu form) d
            = (Redirect ''transfer'' (Some Cannot_transfer_to_self), begin_session d))
       \<and> transfer_money e me me a d = Inl SelfTransfer
       \<and> (is_eligible me \<and> validate_on_submit form \<longrightarrow>
          dispatch (execute_transfer spec_models e cu form) d
            = (Redirect ''transfer'' (Some Transfer_failed), begin_session d))
       \<and> \<not> succeeded (fst (dispatch (transfer cu form) d))
       \<and> snd (dispatch (transfer cu form) d) = begin_session d
       \<and> \<not> succeeded (fst (dispatch (execute_transfer spec_models e cu form) d))
       \<and> snd (dispatch (execute_transfer spec_models e cu form) d) = begin_session d"
proof -
  have sm: "User_transfer_money spec_models e me me x d = (Inr False, d)" for x
    by (simp add: spec_models_def method_result_def transfer_money_self)
  have 1: "is_eligible me \<and> validate_on_submit form \<longrightarrow>
          dispatch (transfer cu form) d
            = (Redirect ''transfer'' (Some Cannot_transfer_to_self), begin_session d)"
    using assms
    by (simp add: route_defs transfer_def transfer_view_def Let_def guard_is_ineligible)
  have 2: "transfer_money e me me a d = Inl SelfTransfer"
    by (simp add: transfer_money_self)
  have 3: "is_eligible me \<and> validate_on_submit form \<longrightarrow>
          dispatch (execute_transfer spec_models e cu form) d
            = (Redirect ''transfer'' (Some Transfer_failed), begin_session d)"
    using assms sm
    by (simp add: route_defs execute_transfer_def execute_transfer_view_def Let_def
        guard_is_ineligible)
  have 4: "\<not> succeeded (fst (dispatch (execute_transfer spec_models e cu form) d))"
    using assms sm
    by (simp add: route_defs execute_transfer_def execute_transfer_view_def Let_def)
  have 5: "snd (dispatch (execute_transfer spec_models e cu form) d) = begin_session d"
    using assms sm
    by (simp add: route_defs execute_transfer_def execute_transfer_view_def Let_def)
  show ?thesis
    using 1 2 3 4 5 transfer_read_only transfer_never_succeeds by blast
qed

theorem self_transfer_rejected_witness:
  "dispatch (transfer (Some 1) to_alice) bank
     = (Redirect ''transfer'' (Some Cannot_transfer_to_self), begin_session bank)
   \<and> transfer_money env0 alice alice 10 bank = Inl SelfTransfer
   \<and> dispatch (execute_transfer spec_models env0 (Some 1) to_alice) bank
     = (Redirect ''transfer'' (Some Transfer_failed), begin_session bank)"
proof -
  have a: "load_user (Some 1) bank = Some alice" "find_recipient to_alice bank = Some alice"
    by (simp_all add: lookup_defs bank_defs form_defs)
  have h: "is_eligible alice \<and> validate_on_submit to_alice"
    by (simp add: is_eligible_def bank_defs form_defs)
  note T = self_transfer_rejected[OF a, where e = env0 and a = 10]
  have w1: "dispatch (transfer (Some 1) to_alice) bank
     = (Redirect ''transfer'' (Some Cannot_transfer_to_self), begin_session bank)"
    by (rule T[THEN conjunct1, THEN mp, OF h])
  have w2: "transfer_money env0 alice alice 10 bank = Inl SelfTransfer"
    by (rule T[THEN conjunct2, THEN conjunct1])
  have w3: "dispatch (execute_transfer spec_models env0 (Some 1) to_alice) bank
     = (Redirect ''transfer'' (Some Transfer_failed), begin_session bank)"
    by (rule T[THEN conjunct2, THEN conjunct2, THEN conjunct1, THEN mp, OF h])
  show ?thesis
    using w1 w2 w3 by (intro conjI)
qed

text \<open>
  Claim C5. A deposit of a positive amount by an admin to an eligible target, with the
  deposit of the specification as the method and a store that accepts the record and
  the commit: the route answers with the success message and commits a state in
  which the target's balance is the old balance plus the amount, every other balance
  is as before, and the ledger is the old ledger followed by exactly one record of
  kind deposit with no sender, the target as receiver and the amount.
\<close>

theorem deposit_credits_target:
  assumes "load_user cu d = Some actor" and "is_admin actor"
    and "dep_validate_on_submit form"
    and "filter_by_account_number (dep_account_number form) d = Some u"
    and "is_eligible u" and "0 < dep_amount form"
    and "\<not> append_fails e" and "\<not> commit_fails e"
  shows "\<exists>d'. dispatch (admin_deposit spec_models e cu form) d
           = (Redirect ''admin_dashboard'' (Some (Deposited (dep_amount form) (username u))),
              begin_session d')
       \<and> users d' = users (set_user (u\<lparr>balance := balance u + dep_amount form\<rparr>) d)
       \<and> balance_of (uid u) d' = Some (balance u + dep_amount form)
       \<and> (\<forall>j. j \<noteq> uid u \<longrightarrow> balance_of j d' = balance_of j d)
       \<and> transactions d' = transactions d @
            [\<lparr>sender_id = None, receiver_id = Some (uid u), amount = Some (dep_amount form),
              transaction_type = ''deposit'', details = Some (username actor),
              timestamp = now e\<rparr>]"
proof -
  let ?u' = "u\<lparr>balance := balance u + dep_amount form\<rparr>"
  let ?t = "\<lparr>sender_id = None, receiver_id = Some (uid u), amount = Some (dep_amount form),
              transaction_type = ''deposit'', details = Some (username actor),
              timestamp = now e\<rparr>"
  let ?d' = "session_add ?t (set_user ?u' d)"
  have m: "User_deposit spec_models e u (dep_amount form) actor d = (Inr True, ?d')"
    using assms
    by (simp add: spec_models_def method_result_def deposit_def record_txn_def Let_def)
  have mem: "u \<in> set (users d)"
    using assms(4) find_Some_mem[of _ "users d" u]
    by (simp add: filter_by_account_number_def)
  have r: "dispatch (admin_deposit spec_models e cu form) d
           = (Redirect ''admin_dashboard'' (Some (Deposited (dep_amount form) (username u))),
              begin_session ?d')"
    using assms m
    by (simp add: route_defs admin_deposit_def admin_deposit_view_def Let_def
        guard_is_ineligible)
  have b: "balance_of (uid u) ?d' = Some (balance u + dep_amount form)"
    using find_set_user_same[OF mem, of ?u']
    by (simp add: balance_of_def query_get_def session_add_def set_user_def)
  have o: "\<forall>j. j \<noteq> uid u \<longrightarrow> balance_of j ?d' = balance_of j d"
    using find_set_user_other[of ?u' _ "users d"]
    by (simp add: balance_of_def query_get_def session_add_def set_user_def)
  have t: "transactions ?d' = transactions d @ [?t]"
    by (simp add: session_add_def set_user_def)
  have us: "users ?d' = users (set_user ?u' d)"
    by (simp add: session_add_def)
  show ?thesis
    using r b o t us by blast
qed

theorem deposit_credits_target_witness:
  "\<exists>d'. dispatch (admin_deposit spec_models env0 (Some 3) deposit_alice) bank
           = (Redirect ''admin_dashboard'' (Some (Deposited 50 ''alice'')), begin_session d')
       \<and> balance_of 1 bank = Some 100
       \<and> balance_of 1 d' = Some 150
       \<and> balance_of 5 d' = Some 40
       \<and> transactions d' = transactions bank @
            [\<lparr>sender_id = None, receiver_id = Some 1, amount = Some 50,
              transaction_type = ''deposit'', details = Some ''carol'', timestamp = 1000\<rparr>]"
proof -
  have h: "load_user (Some 3) bank = Some carol" "is_admin carol"
    "dep_validate_on_submit deposit_alice"
    "filter_by_account_number (dep_account_number deposit_alice) bank = Some alice"
    "is_eligible alice" "0 < dep_amount deposit_alice"
    "\<not> append_fails env0" "\<not> commit_fails env0"
    by (simp_all add: lookup_defs is_eligible_def bank_defs form_defs)
  have v: "dep_amount deposit_alice = 50" "username alice = ''alice''" "uid alice = 1"
    "balance alice = 100" "username carol = ''carol''" "now env0 = 1000"
    "balance_of 1 bank = Some 100" "balance_of 5 bank = Some 40"
    by (simp_all add: bank_defs form_defs balance_of_def query_get_def)
  from deposit_credits_target[OF h] obtain d' where
    d: "dispatch (admin_deposit spec_models env0 (Some 3) deposit_alice) bank
           = (Redirect ''admin_dashboard''
                (Some (Deposited (dep_amount deposit_alice) (username alice))),
              begin_session d')"
       "balance_of (uid alice) d' = Some (balance alice + dep_amount deposit_alice)"
       "\<forall>j. j \<noteq> uid alice \<longrightarrow> balance_of j d' = balance_of j bank"
       "transactions d' = transactions bank @
            [\<lparr>sender_id = None, receiver_id = Some (uid alice),
              amount = Some (dep_amount deposit_alice),
              transaction_type = ''deposit'', details = Some (username carol),
              timestamp = now env0\<rparr>]"
    by blast
  have o: "balance_of 5 d' = Some 40"
    using d(3) v by simp
  show ?thesis
    using d(1,2,4) o v by (intro exI[of _ d']) simp
qed

section \<open>Amounts as binary floating point\<close>

text \<open>
  Claim C9. The claim says that the amounts of a transfer or deposit are exact
  decimals or minor-unit integers and never binary floating point. Line 317 hands
  \<^verbatim>\<open>float(form.amount.data)\<close> to the method. The decimal amount 0.1 becomes the
  double 3602879701896397 / 2^55, which is not one tenth, and that is the amount the
  sender is debited and the success message reports. An amount of
  100.000000000000000001 exceeds alice's balance of 100 and is refused by
  \<^verbatim>\<open>transfer\<close>, which compares the amount as entered (line 280); the executing route
  rounds it to 100.0 and the transfer goes through, leaving alice with 0.
\<close>

lemma floor_rat_numeral:
  "\<lfloor>(numeral a :: rat) / numeral b\<rfloor> = numeral a div numeral b"
  using floor_divide_of_int_eq[of "numeral a" "numeral b", where ?'a = rat] by simp

lemma bit_length_9: "bit_length 9 = 4"
  by (simp add: bit_length.simps)

lemma bit_length_100: "bit_length 100 = 7"
  by (simp add: bit_length.simps)

lemma float_exponent_tenth: "float_exponent (1 / 10) = - 56"
  by (simp add: float_exponent_def bit_length_9)

lemma float_exponent_over:
  "float_exponent (100000000000000000001 / 1000000000000000000) = - 46"
  by (simp add: float_exponent_def bit_length_100 floor_rat_numeral)

lemma py_float64_tenth: "py_float64 (1 / 10) = 3602879701896397 / 36028797018963968"
  by (simp add: py_float64_def float_exponent_tenth pow2_def round_half_even_def Let_def
      floor_rat_numeral)

lemma py_float64_over: "py_float64 (100000000000000000001 / 1000000000000000000) = 100"
  by (simp add: py_float64_def float_exponent_over pow2_def round_half_even_def Let_def
      floor_rat_numeral)

lemma run_tenth:
  "dispatch (execute_transfer spec_models env64 (Some 1) tenth_to_erin) bank
     = (Redirect ''account''
          (Some (Transferred (3602879701896397 / 36028797018963968) ''erin'')),
        begin_session
          (session_add
             \<lparr>sender_id = Some 1, receiver_id = Some 5,
              amount = Some (3602879701896397 / 36028797018963968),
              transaction_type = ''transfer'', details = None, timestamp = 1000\<rparr>
             (set_user (erin\<lparr>balance := 40 + 3602879701896397 / 36028797018963968\<rparr>)
                (set_user (alice\<lparr>balance := 100 - 3602879701896397 / 36028797018963968\<rparr>)
                   bank))))"
  by (simp add: route_defs execute_transfer_def execute_transfer_view_def lookup_defs
      bank_def alice_def erin_def bob_def carol_def dave_def env64_def tenth_to_erin_def
      py_float64_tenth spec_models_def method_result_def transfer_money_def record_txn_def
      is_eligible_def Let_def)

lemma run_over:
  "dispatch (execute_transfer spec_models env64 (Some 1) over_to_erin) bank
     = (Redirect ''account'' (Some (Transferred 100 ''erin'')),
        begin_session
          (session_add
             \<lparr>sender_id = Some 1, receiver_id = Some 5, amount = Some 100,
              transaction_type = ''transfer'', details = None, timestamp = 1000\<rparr>
             (set_user (erin\<lparr>balance := 140\<rparr>) (set_user (alice\<lparr>balance := 0\<rparr>) bank))))"
  by (simp add: route_defs execute_transfer_def execute_transfer_view_def lookup_defs
      bank_def alice_def erin_def bob_def carol_def dave_def env64_def over_to_erin_def
      py_float64_over spec_models_def method_result_def transfer_money_def record_txn_def
      is_eligible_def Let_def)

theorem execute_transfer_rounds_to_binary_float:
  "py_float64 (1 / 10) = 3602879701896397 / 36028797018963968
   \<and> py_float64 (amount_data tenth_to_erin) \<noteq> amount_data tenth_to_erin
   \<and> fst (dispatch (execute_transfer spec_models env64 (Some 1) tenth_to_erin) bank)
       = Redirect ''account''
           (Some (Transferred (3602879701896397 / 36028797018963968) ''erin''))
   \<and> balance_of 1 (committed (snd (dispatch
         (execute_transfer spec_models env64 (Some 1) tenth_to_erin) bank)))
       = Some (100 - 3602879701896397 / 36028797018963968)
   \<and> balance alice < amount_data over_to_erin
   \<and> dispatch (transfer (Some 1) over_to_erin) bank
       = (Redirect ''transfer'' (Some Insufficient_funds), begin_session bank)
   \<and> fst (dispatch (execute_transfer spec_models env64 (Some 1) over_to_erin) bank)
       = Redirect ''account'' (Some (Transferred 100 ''erin''))
   \<and> balance_of 1 (committed (snd (dispatch
         (execute_transfer spec_models env64 (Some 1) over_to_erin) bank))) = Some 0
   \<and> balance_of 5 (committed (snd (dispatch
         (execute_transfer spec_models env64 (Some 1) over_to_erin) bank))) = Some 140"
proof (intro conjI)
  show "py_float64 (1 / 10) = 3602879701896397 / 36028797018963968"
    by (rule py_float64_tenth)
  show "py_float64 (amount_data tenth_to_erin) \<noteq> amount_data tenth_to_erin"
    by (simp add: tenth_to_erin_def py_float64_tenth)
  show "fst (dispatch (execute_transfer spec_models env64 (Some 1) tenth_to_erin) bank)
       = Redirect ''account''
           (Some (Transferred (3602879701896397 / 36028797018963968) ''erin''))"
    by (simp only: run_tenth fst_conv)
  show "balance_of 1 (committed (snd (dispatch
         (execute_transfer spec_models env64 (Some 1) tenth_to_erin) bank)))
       = Some (100 - 3602879701896397 / 36028797018963968)"
    unfolding run_tenth
    by (simp add: begin_session_def balance_of_def query_get_def session_add_def
        set_user_def bank_def alice_def erin_def bob_def carol_def dave_def)
  show "balance alice < amount_data over_to_erin"
    by (simp add: alice_def over_to_erin_def)
  show "dispatch (transfer (Some 1) over_to_erin) bank
       = (Redirect ''transfer'' (Some Insufficient_funds), begin_session bank)"
    by (simp add: route_defs transfer_def transfer_view_def lookup_defs
        bank_def alice_def erin_def bob_def carol_def dave_def over_to_erin_def)
  show "fst (dispatch (execute_transfer spec_models env64 (Some 1) over_to_erin) bank)
       = Redirect ''account'' (Some (Transferred 100 ''erin''))"
    by (simp only: run_over fst_conv)
  show "balance_of 1 (committed (snd (dispatch
         (execute_transfer spec_models env64 (Some 1) over_to_erin) bank))) = Some 0"
    unfolding run_over
    by (simp add: begin_session_def balance_of_def query_get_def session_add_def
        set_user_def bank_def alice_def erin_def bob_def carol_def dave_def)
  show "balance_of 5 (committed (snd (dispatch
         (execute_transfer spec_models env64 (Some 1) over_to_erin) bank))) = Some 140"
    unfolding run_over
    by (simp add: begin_session_def balance_of_def query_get_def session_add_def
        set_user_def bank_def alice_def erin_def bob_def carol_def dave_def)
qed

end
